theory Spec2Isabelle
  imports Main "HOL-Library.Sublist"
begin

section \<open>Go library functions used by the registry image resource\<close>

text \<open>
  Go strings are byte sequences; they are modelled as \<open>string\<close> (a list of 8-bit
  characters). The following functions are the parts of the Go standard library that
  \<open>resource_docker_registry_image_funcs.go\<close> calls on strings.
\<close>

text \<open>\<open>strings.Contains(s, sub)\<close>.\<close>

fun strings_Contains :: "string \<Rightarrow> string \<Rightarrow> bool" where
  "strings_Contains [] sub = (sub = [])"
| "strings_Contains (c # cs) sub = (prefix sub (c # cs) \<or> strings_Contains cs sub)"

text \<open>\<open>strings.Replace(s, old, new, 1)\<close>: only the first occurrence of \<open>old\<close> is replaced.\<close>

fun strings_Replace1 :: "string \<Rightarrow> string \<Rightarrow> string \<Rightarrow> string" where
  "strings_Replace1 [] old new = (if old = [] then new else [])"
| "strings_Replace1 (c # cs) old new =
     (if prefix old (c # cs) then new @ drop (length old) (c # cs)
      else c # strings_Replace1 cs old new)"

text \<open>
  \<open>strconv.Atoi\<close>: an optional sign, then one or more decimal digits, and the value has to
  fit the platform's \<open>int\<close> (64 bits here); everything else is an error (\<open>None\<close>).
\<close>

definition digit_value :: "char \<Rightarrow> nat option" where
  "digit_value c =
     (let n = (of_char c :: nat) in if 48 \<le> n \<and> n \<le> 57 then Some (n - 48) else None)"

fun parse_digits :: "string \<Rightarrow> nat \<Rightarrow> nat option" where
  "parse_digits [] acc = Some acc"
| "parse_digits (c # cs) acc =
     (case digit_value c of None \<Rightarrow> None | Some d \<Rightarrow> parse_digits cs (acc * 10 + d))"

definition Atoi :: "string \<Rightarrow> int option" where
  "Atoi s =
     (case s of
        [] \<Rightarrow> None
      | c # cs \<Rightarrow>
          (let neg = (c = CHR ''-'');
               ds = (if c = CHR ''-'' \<or> c = CHR ''+'' then cs else s)
           in if ds = [] then None
              else (case parse_digits ds 0 of
                      None \<Rightarrow> None
                    | Some n \<Rightarrow>
                        (let i = (if neg then - int n else int n)
                         in if - (2 ^ 63) \<le> i \<and> i \<le> 2 ^ 63 - 1 then Some i else None))))"

text \<open>
  \<open>encoding/base64\<close>: \<open>EncodeToString\<close> with padding, over a 64-character alphabet
  (\<open>StdEncoding\<close> or \<open>URLEncoding\<close>).
\<close>

definition encodeStd :: string where
  "encodeStd = ''ABCDEFGHIJKLMNOPQRSTUVWXYZabcdefghijklmnopqrstuvwxyz0123456789+/''"

definition encodeURL :: string where
  "encodeURL = ''ABCDEFGHIJKLMNOPQRSTUVWXYZabcdefghijklmnopqrstuvwxyz0123456789-_''"

fun base64_bytes :: "string \<Rightarrow> nat list \<Rightarrow> string" where
  "base64_bytes alphabet [] = []"
| "base64_bytes alphabet [a] =
     [alphabet ! (a div 4), alphabet ! ((a mod 4) * 16), CHR ''='', CHR ''='']"
| "base64_bytes alphabet [a, b] =
     [alphabet ! (a div 4), alphabet ! ((a mod 4) * 16 + b div 16),
      alphabet ! ((b mod 16) * 4), CHR ''='']"
| "base64_bytes alphabet (a # b # c # rest) =
     [alphabet ! (a div 4), alphabet ! ((a mod 4) * 16 + b div 16),
      alphabet ! ((b mod 16) * 4 + c div 64), alphabet ! (c mod 64)]
     @ base64_bytes alphabet rest"

definition EncodeToString :: "string \<Rightarrow> string \<Rightarrow> string" where
  "EncodeToString alphabet src = base64_bytes alphabet (map of_char src)"

text \<open>
  \<open>url.QueryEscape\<close> and \<open>url.Values.Encode\<close> for the two keys the code sets, \<open>service\<close>
  and \<open>scope\<close>. \<open>Encode\<close> writes the keys in sorted order, so \<open>scope\<close> comes first.
\<close>

definition unreserved :: "char \<Rightarrow> bool" where
  "unreserved c =
     (c \<in> set ''ABCDEFGHIJKLMNOPQRSTUVWXYZabcdefghijklmnopqrstuvwxyz0123456789-_.~'')"

definition upperhex :: "nat \<Rightarrow> char" where
  "upperhex n = ''0123456789ABCDEF'' ! n"

definition escape_byte :: "char \<Rightarrow> string" where
  "escape_byte c =
     (if unreserved c then [c]
      else if c = CHR '' '' then ''+''
      else [CHR ''%'', upperhex ((of_char c :: nat) div 16), upperhex ((of_char c :: nat) mod 16)])"

definition QueryEscape :: "string \<Rightarrow> string" where
  "QueryEscape s = concat (map escape_byte s)"

definition Values_Encode :: "string \<Rightarrow> string \<Rightarrow> string" where
  "Values_Encode service scope =
     ''scope='' @ QueryEscape scope @ ''&service='' @ QueryEscape service"

section \<open>HTTP requests, responses and the client\<close>

text \<open>
  A header is kept as an association list from canonical header names to their value;
  \<open>Header.Set\<close> replaces the value of a key, \<open>Header.Get\<close> returns the empty string for a
  key that is absent.
\<close>

type_synonym header = "(string \<times> string) list"

definition Header_Set :: "string \<Rightarrow> string \<Rightarrow> header \<Rightarrow> header" where
  "Header_Set k v h = (k, v) # filter (\<lambda>kv. fst kv \<noteq> k) h"

definition Header_Get :: "header \<Rightarrow> string \<Rightarrow> string" where
  "Header_Get h k = (case map_of h k of None \<Rightarrow> [] | Some v \<Rightarrow> v)"

record request =
  Method :: string
  URL :: string
  ReqHeader :: header

record response =
  StatusCode :: int
  Status :: string
  RespHeader :: header
  Body :: "string + string"

text \<open>
  \<open>Body\<close> is what \<open>ioutil.ReadAll\<close> gives for the response: \<open>Inl\<close> a read error, \<open>Inr\<close> the bytes.
\<close>

datatype transport = DefaultTransport | InsecureSkipVerify

record http_client =
  Transport :: transport

text \<open>\<open>req.SetBasicAuth(username, password)\<close>.\<close>

definition SetBasicAuth :: "string \<Rightarrow> string \<Rightarrow> request \<Rightarrow> request" where
  "SetBasicAuth username password req =
     req\<lparr>ReqHeader := Header_Set ''Authorization''
            (''Basic '' @ EncodeToString encodeStd (username @ '':'' @ password)) (ReqHeader req)\<rparr>"

text \<open>
  What the functions of \<open>resource_docker_registry_image_funcs.go\<close> call and do not
  define: helpers of the provider that live in its other files, and library behaviour that
  is taken as given. They are parameters of the model.
  \<^item> \<open>url_parse_error u\<close>: the error of \<open>http.NewRequest\<close> for the URL \<open>u\<close>, if it has one;
  \<^item> \<open>sprintf_verbs f\<close>: what \<open>fmt\<close> prints for a format string \<open>f\<close> without operands
    that has flags, a width, a precision or an argument index after a \<open>%\<close>;
  \<^item> \<open>parseAuthHeader\<close>, \<open>parseImageOptions\<close>, \<open>normalizeRegistryAddress\<close>,
    \<open>processStreamingOutput\<close>, \<open>dataSourceDockerRegistryImageRead\<close>: the provider's helpers;
  \<^item> \<open>unmarshal_token b\<close>: \<open>json.Unmarshal\<close> of \<open>b\<close> into a \<open>TokenResponse\<close>, giving its
    \<open>Token\<close> field or an error;
  \<^item> \<open>json_string\<close>: the JSON encoding of a Go string.
\<close>

record pullOpts =
  Registry :: string
  Repository :: string
  Tag :: string

record resourceData =
  name :: string
  sha256_digest :: string
  keep_remote :: bool
  Id :: string

record ('out) deps =
  url_parse_error :: "string \<Rightarrow> string option"
  sprintf_verbs :: "string \<Rightarrow> string"
  parseAuthHeader :: "string \<Rightarrow> (string \<rightharpoonup> string)"
  unmarshal_token :: "string \<Rightarrow> string + string"
  parseImageOptions :: "string \<Rightarrow> pullOpts"
  normalizeRegistryAddress :: "string \<Rightarrow> string"
  json_string :: "string \<Rightarrow> string"
  processStreamingOutput :: "'out \<Rightarrow> string option"
  dataSourceDockerRegistryImageRead :: "resourceData \<Rightarrow> string option \<times> resourceData"

text \<open>
  \<open>fmt.Errorf(f)\<close> with no operands, as lines 180, 202, 208 and 212 call it: the
  argument is the format string. \<open>fmt\<close> copies the text up to a \<open>%\<close>; the character after
  it is the verb. The verb \<open>%\<close> prints a percent sign; a letter, with no operand left for
  it, prints \<open>%!\<close>, the letter and \<open>(MISSING)\<close>; a \<open>%\<close> at the very end prints
  \<open>%!(NOVERB)\<close>. Other characters after a \<open>%\<close> (flags, digits, a dot, a bracket, a star)
  are left to \<open>sprintf_verbs\<close>; \<open>sprintf0\<close> is \<open>None\<close> for them.
\<close>

definition ascii_letter :: "char \<Rightarrow> bool" where
  "ascii_letter c =
     (let n = (of_char c :: nat) in (65 \<le> n \<and> n \<le> 90) \<or> (97 \<le> n \<and> n \<le> 122))"

fun sprintf0 :: "string \<Rightarrow> string option" where
  "sprintf0 [] = Some []"
| "sprintf0 [c] = (if c = CHR ''%'' then Some ''%!(NOVERB)'' else Some [c])"
| "sprintf0 (c # v # rest) =
     (if c \<noteq> CHR ''%'' then map_option (\<lambda>s. c # s) (sprintf0 (v # rest))
      else if v = CHR ''%'' then map_option (\<lambda>s. CHR ''%'' # s) (sprintf0 rest)
      else if ascii_letter v
      then map_option (\<lambda>s. ''%!'' @ [v] @ ''(MISSING)'' @ s) (sprintf0 rest)
      else None)"

definition Errorf0 :: "('out, 'x) deps_scheme \<Rightarrow> string \<Rightarrow> string" where
  "Errorf0 dp f = (case sprintf0 f of Some s \<Rightarrow> s | None \<Rightarrow> sprintf_verbs dp f)"

text \<open>\<open>http.NewRequest(method, url, nil)\<close> for the methods \<open>DELETE\<close> and \<open>GET\<close>.\<close>

definition NewRequest :: "('out, 'x) deps_scheme \<Rightarrow> string \<Rightarrow> string \<Rightarrow> string + request" where
  "NewRequest dp m u =
     (case url_parse_error dp u of
        Some e \<Rightarrow> Inl e
      | None \<Rightarrow> Inr \<lparr>Method = m, URL = u, ReqHeader = []\<rparr>)"

text \<open>
  The network: \<open>client.Do\<close> sends a request with the client's transport and gets a
  transport error (\<open>Inl\<close>) or a response; the registry's side is a state \<open>'w\<close> that each
  exchange may change. The state of a call is the client (the process-wide
  \<open>http.DefaultClient\<close>), the registry's side and the requests sent so far.
\<close>

type_synonym 'w net = "'w \<Rightarrow> http_client \<Rightarrow> request \<Rightarrow> (string + response) \<times> 'w"

record 'w sys =
  Client :: http_client
  World :: 'w
  Sent :: "request list"

definition Do :: "'w net \<Rightarrow> request \<Rightarrow> 'w sys \<Rightarrow> (string + response) \<times> 'w sys" where
  "Do nt req st =
     (let (r, w') = nt (World st) (Client st) req
      in (r, st\<lparr>World := w', Sent := Sent st @ [req]\<rparr>))"

section \<open>Credentials\<close>

text \<open>
  \<open>types.AuthConfig\<close> of the Docker API, and the provider's credential table
  \<open>AuthConfigs.Configs\<close>: the code indexes it with a registry address and reads an
  \<open>AuthConfig\<close> and a flag from it, so it is a map \<open>string \<rightharpoonup> AuthConfig\<close>. Every field of
  \<open>AuthConfig\<close> is tagged \<open>omitempty\<close>, so \<open>json.Marshal\<close> leaves out the empty ones; it
  has no error for this type.
\<close>

record AuthConfig =
  Username :: string
  Password :: string
  Auth :: string
  Email :: string
  ServerAddress :: string
  IdentityToken :: string
  RegistryToken :: string

definition emptyAuthConfig :: AuthConfig where
  "emptyAuthConfig =
     \<lparr>Username = [], Password = [], Auth = [], Email = [], ServerAddress = [],
      IdentityToken = [], RegistryToken = []\<rparr>"

fun json_fields :: "('out, 'x) deps_scheme \<Rightarrow> (string \<times> string) list \<Rightarrow> string list" where
  "json_fields dp [] = []"
| "json_fields dp ((k, v) # kvs) =
     (if v = [] then json_fields dp kvs
      else (''\"'' @ k @ ''\":'' @ json_string dp v) # json_fields dp kvs)"

fun join_comma :: "string list \<Rightarrow> string" where
  "join_comma [] = []"
| "join_comma [x] = x"
| "join_comma (x # y # ys) = x @ '','' @ join_comma (y # ys)"

definition json_Marshal :: "('out, 'x) deps_scheme \<Rightarrow> AuthConfig \<Rightarrow> string" where
  "json_Marshal dp a =
     ''{'' @ join_comma (json_fields dp
        [(''username'', Username a), (''password'', Password a), (''auth'', Auth a),
         (''email'', Email a), (''serveraddress'', ServerAddress a),
         (''identitytoken'', IdentityToken a), (''registrytoken'', RegistryToken a)]) @ ''}''"

section \<open>removeRegistryImage\<close>

text \<open>
  Lines 121 to 130: the transport that skips certificate verification is installed on the
  client when \<open>TF_ACC\<close> is set to an integer that is at least 1.
\<close>

definition configureTLS :: "(string \<rightharpoonup> string) \<Rightarrow> http_client \<Rightarrow> http_client" where
  "configureTLS env c =
     (case env ''TF_ACC'' of
        None \<Rightarrow> c
      | Some v \<Rightarrow>
          (case Atoi v of
             None \<Rightarrow> c
           | Some i \<Rightarrow> if i \<ge> 1 then c\<lparr>Transport := InsecureSkipVerify\<rparr> else c))"

definition manifestURL :: "string \<Rightarrow> string \<Rightarrow> string \<Rightarrow> string" where
  "manifestURL registry img manifest =
     ''https://'' @ registry @ ''/v2/'' @ img @ ''/manifests/'' @ manifest"

text \<open>Lines 137 to 139 and 169 to 171: basic auth is set when the username is not empty.\<close>

definition withBasicAuth :: "string \<Rightarrow> string \<Rightarrow> request \<Rightarrow> request" where
  "withBasicAuth username password req =
     (if username \<noteq> [] then SetBasicAuth username password req else req)"

text \<open>Lines 159 to 163: the URL of the token request, from the parsed challenge.\<close>

definition lookup_str :: "(string \<rightharpoonup> string) \<Rightarrow> string \<Rightarrow> string" where
  "lookup_str m k = (case m k of None \<Rightarrow> [] | Some v \<Rightarrow> v)"

definition tokenURL :: "('out, 'x) deps_scheme \<Rightarrow> string \<Rightarrow> string" where
  "tokenURL dp challenge =
     (let auth = parseAuthHeader dp challenge
      in lookup_str auth ''realm'' @ ''?''
         @ Values_Encode (lookup_str auth ''service'') (lookup_str auth ''scope''))"

text \<open>
  Lines 159 to 205: the body of the branch taken on 401 with a \<open>Bearer\<close> challenge;
  \<open>req\<close> is the request built for the first exchange and \<open>resp\<close> its response.
\<close>

definition bearerFlow ::
  "('out, 'x) deps_scheme \<Rightarrow> 'w net \<Rightarrow> string \<Rightarrow> string \<Rightarrow> request \<Rightarrow> response \<Rightarrow> 'w sys
     \<Rightarrow> string option \<times> 'w sys" where
  "bearerFlow dp nt username password req resp st =
     (case NewRequest dp ''GET'' (tokenURL dp (Header_Get (RespHeader resp) ''Www-Authenticate'')) of
        Inl err \<Rightarrow> (Some (''Error creating registry request: '' @ err), st)
      | Inr tokenRequest0 \<Rightarrow>
          (let tokenRequest = withBasicAuth username password tokenRequest0;
               (r, st1) = Do nt tokenRequest st
           in case r of
                Inl err \<Rightarrow> (Some (''Error during registry request: '' @ err), st1)
              | Inr tokenResponse \<Rightarrow>
                  if StatusCode tokenResponse \<noteq> 200
                  then (Some (Errorf0 dp (''Got bad response from registry: '' @ Status tokenResponse)), st1)
                  else (case Body tokenResponse of
                          Inl err \<Rightarrow> (Some (''Error reading response body: '' @ err), st1)
                        | Inr body \<Rightarrow>
                            (case unmarshal_token dp body of
                               Inl err \<Rightarrow> (Some (''Error parsing OAuth token response: '' @ err), st1)
                             | Inr token \<Rightarrow>
                                 (let req' = req\<lparr>ReqHeader :=
                                        Header_Set ''Authorization'' (''Bearer '' @ token) (ReqHeader req)\<rparr>;
                                      (r2, st2) = Do nt req' st1
                                  in case r2 of
                                       Inl err \<Rightarrow> (Some (''Error during registry request: '' @ err), st2)
                                     | Inr digestResponse \<Rightarrow>
                                         if StatusCode digestResponse \<noteq> 200
                                         then (Some (Errorf0 dp (''Got bad response from registry: ''
                                                  @ Status digestResponse)), st2)
                                         else (None, st2))))))"

definition removeRegistryImage ::
  "('out, 'x) deps_scheme \<Rightarrow> 'w net \<Rightarrow> (string \<rightharpoonup> string) \<Rightarrow> 'w sys
     \<Rightarrow> string \<Rightarrow> string \<Rightarrow> string \<Rightarrow> string \<Rightarrow> string \<Rightarrow> string option \<times> 'w sys" where
  "removeRegistryImage dp nt env st0 registry img manifest username password =
     (let st = st0\<lparr>Client := configureTLS env (Client st0)\<rparr>
      in case NewRequest dp ''DELETE'' (manifestURL registry img manifest) of
           Inl err \<Rightarrow> (Some (''Error creating registry request: '' @ err), st)
         | Inr req0 \<Rightarrow>
             (let req = withBasicAuth username password req0;
                  (r, st1) = Do nt req st
              in case r of
                   Inl err \<Rightarrow> (Some (''Error during registry request: '' @ err), st1)
                 | Inr resp \<Rightarrow>
                     if StatusCode resp = 202 then (None, st1)
                     else if StatusCode resp = 404 then (None, st1)
                     else if StatusCode resp = 401 then
                       (if prefix ''Bearer'' (Header_Get (RespHeader resp) ''Www-Authenticate'')
                        then bearerFlow dp nt username password req resp st1
                        else (Some (Errorf0 dp (''Bad credentials: '' @ Status resp)), st1))
                     else (Some (Errorf0 dp (''Got bad response from registry: '' @ Status resp)), st1)))"

section \<open>The resource's operations\<close>

text \<open>
  Lines 44 to 73 of \<open>resourceDockerRegistryImageDelete\<close>: the registry, repository,
  digest, user name and password that are passed to \<open>removeRegistryImage\<close>.
\<close>

definition hub :: string where
  "hub = ''registry.hub.docker.com''"

definition deleteArguments ::
  "('out, 'x) deps_scheme \<Rightarrow> (string \<rightharpoonup> AuthConfig) \<Rightarrow> resourceData
     \<Rightarrow> string \<times> string \<times> string \<times> string \<times> string" where
  "deleteArguments dp configs d =
     (let pullOpts = parseImageOptions dp (name d);
          digest = sha256_digest d;
          pullOpts1 = (if Registry pullOpts = []
                       then pullOpts\<lparr>Registry := hub\<rparr>
                       else pullOpts\<lparr>Repository :=
                              strings_Replace1 (Repository pullOpts) (Registry pullOpts @ ''/'') []\<rparr>);
          pullOpts2 = (if Registry pullOpts1 = hub
                       then (if \<not> strings_Contains (Repository pullOpts1) ''/''
                             then pullOpts1\<lparr>Repository := ''library/'' @ Repository pullOpts1\<rparr>
                             else pullOpts1)
                       else pullOpts1);
          pullOpts3 = (if Tag pullOpts2 = [] then pullOpts2\<lparr>Tag := ''latest''\<rparr> else pullOpts2)
      in case configs (normalizeRegistryAddress dp (Registry pullOpts3)) of
           Some auth \<Rightarrow> (Registry pullOpts3, Repository pullOpts3, digest, Username auth, Password auth)
         | None \<Rightarrow> (Registry pullOpts3, Repository pullOpts3, digest, [], []))"

definition resourceDockerRegistryImageDelete ::
  "('out, 'x) deps_scheme \<Rightarrow> 'w net \<Rightarrow> (string \<rightharpoonup> string) \<Rightarrow> (string \<rightharpoonup> AuthConfig)
     \<Rightarrow> resourceData \<Rightarrow> 'w sys \<Rightarrow> string option \<times> resourceData \<times> 'w sys" where
  "resourceDockerRegistryImageDelete dp nt env configs d st =
     (if keep_remote d then (None, d, st)
      else (case deleteArguments dp configs d of
              (registry, repository, digest, username, password) \<Rightarrow>
                (case removeRegistryImage dp nt env st registry repository digest username password of
                   (Some err, st') \<Rightarrow> (Some (''Unable to remove Docker image: '' @ err), d, st')
                 | (None, st') \<Rightarrow> (None, d\<lparr>Id := []\<rparr>, st'))))"

text \<open>
  \<open>pushImage\<close>: \<open>push img auth\<close> is \<open>client.ImagePush\<close> of the Docker client with the
  \<open>RegistryAuth\<close> option, giving an error or the stream of the push. The result is the
  error, if any, and the calls of \<open>ImagePush\<close> that were made, each with its image and
  its \<open>RegistryAuth\<close>.
\<close>

definition pushImage ::
  "('out, 'x) deps_scheme \<Rightarrow> (string \<Rightarrow> string \<Rightarrow> string + 'out) \<Rightarrow> (string \<rightharpoonup> AuthConfig)
     \<Rightarrow> string \<Rightarrow> string option \<times> (string \<times> string) list" where
  "pushImage dp push configs img =
     (let pullOpts = parseImageOptions dp img;
          auth = (if Registry pullOpts \<noteq> []
                  then (case configs (normalizeRegistryAddress dp (Registry pullOpts)) of
                          Some authConfig \<Rightarrow> authConfig
                        | None \<Rightarrow> emptyAuthConfig)
                  else (case configs ''https://registry.hub.docker.com'' of
                          Some authConfig \<Rightarrow> authConfig
                        | None \<Rightarrow> emptyAuthConfig));
          encodedJSON = json_Marshal dp auth;
          registryAuth = EncodeToString encodeURL encodedJSON
      in case push img registryAuth of
           Inl err \<Rightarrow> (Some (''error pulling image '' @ img @ '': '' @ err), [(img, registryAuth)])
         | Inr out \<Rightarrow> (processStreamingOutput dp out, [(img, registryAuth)]))"

definition resourceDockerRegistryImageCreate ::
  "('out, 'x) deps_scheme \<Rightarrow> (string \<Rightarrow> string \<Rightarrow> string + 'out) \<Rightarrow> (string \<rightharpoonup> AuthConfig)
     \<Rightarrow> resourceData \<Rightarrow> string option \<times> resourceData" where
  "resourceDockerRegistryImageCreate dp push configs d =
     (case fst (pushImage dp push configs (name d)) of
        Some err \<Rightarrow> (Some (''Unable to push Docker image: '' @ err), d)
      | None \<Rightarrow> dataSourceDockerRegistryImageRead dp d)"

section \<open>The helpers that live in other files of the provider\<close>

text \<open>
  Modelled from the spec: \<open>parseImageOptions\<close> is called by the delete and push paths and
  defined in another file of the provider. The spec's reference parser treats a leading
  segment as a registry only if it contains a dot, a colon, or equals \<open>localhost\<close>, and
  otherwise takes the whole string as repository path; a trailing \<open>:tag\<close> in the last
  segment is the tag. The delete path filters the registry out of the repository itself
  (line 53), so the repository keeps the registry in front. References with a digest
  suffix are not treated here.
\<close>

definition lastSegment :: "string \<Rightarrow> string" where
  "lastSegment s = rev (takeWhile (\<lambda>c. c \<noteq> CHR ''/'') (rev s))"

definition parseImageOptions_spec :: "string \<Rightarrow> pullOpts" where
  "parseImageOptions_spec img =
     (let seg = takeWhile (\<lambda>c. c \<noteq> CHR ''/'') img;
          registry = (if CHR ''/'' \<in> set img
                         \<and> (CHR ''.'' \<in> set seg \<or> CHR '':'' \<in> set seg \<or> seg = ''localhost'')
                      then seg else []);
          tl_seg = lastSegment img;
          tagged = dropWhile (\<lambda>c. c \<noteq> CHR '':'') tl_seg
      in if tagged = []
         then \<lparr>Registry = registry, Repository = img, Tag = []\<rparr>
         else \<lparr>Registry = registry,
               Repository = take (length img - length tagged) img,
               Tag = drop 1 tagged\<rparr>)"

text \<open>
  Modelled from the spec: \<open>normalizeRegistryAddress\<close> is defined in another file of the
  provider. The spec's normalisation prefixes a registry with an explicit HTTPS scheme
  if no scheme is present.
\<close>

definition normalizeRegistryAddress_spec :: "string \<Rightarrow> string" where
  "normalizeRegistryAddress_spec address =
     (if prefix ''https://'' address \<or> prefix ''http://'' address then address
      else ''https://'' @ address)"

section \<open>A registry that answers from a script\<close>

text \<open>
  For running the operations on concrete exchanges: a registry that gives the n-th
  answer of a list to the n-th request, whatever the request, and a transport error once
  the list is used up; and an instance of the dependencies in which every URL parses and
  every challenge names the same token service.
\<close>

definition scripted :: "(string + response) list \<Rightarrow> nat net" where
  "scripted answers n c req =
     (if n < length answers then (answers ! n, Suc n) else (Inl ''EOF'', Suc n))"

definition fixedChallenge :: "string \<rightharpoonup> string" where
  "fixedChallenge =
     map_of [(''realm'', ''https://auth.docker.io/token''),
             (''service'', ''registry.docker.io''),
             (''scope'', ''repository:library/consul:delete'')]"

definition fixedDeps :: "unit deps" where
  "fixedDeps =
     \<lparr>url_parse_error = (\<lambda>u. None),
      sprintf_verbs = (\<lambda>f. f),
      parseAuthHeader = (\<lambda>h. fixedChallenge),
      unmarshal_token = (\<lambda>b. if b = ''{\"token\":\"abc\"}'' then Inr ''abc'' else Inl ''invalid character''),
      parseImageOptions = parseImageOptions_spec,
      normalizeRegistryAddress = normalizeRegistryAddress_spec,
      json_string = (\<lambda>v. ''\"'' @ v @ ''\"''),
      processStreamingOutput = (\<lambda>out. None),
      dataSourceDockerRegistryImageRead = (\<lambda>d. (None, d))\<rparr>"

definition start :: "nat sys" where
  "start = \<lparr>Client = \<lparr>Transport = DefaultTransport\<rparr>, World = 0, Sent = []\<rparr>"

definition bearerChallenge :: header where
  "bearerChallenge =
     [(''Www-Authenticate'',
       ''Bearer realm=\"https://auth.docker.io/token\",service=\"registry.docker.io\",scope=\"repository:library/consul:delete\"'')]"

definition challenge401 :: response where
  "challenge401 =
     \<lparr>StatusCode = 401, Status = ''401 Unauthorized'', RespHeader = bearerChallenge, Body = Inr []\<rparr>"

definition basic401 :: response where
  "basic401 =
     \<lparr>StatusCode = 401, Status = ''401 Unauthorized'',
      RespHeader = [(''Www-Authenticate'', ''Basic realm=\"registry\"'')], Body = Inr []\<rparr>"

definition token200 :: response where
  "token200 =
     \<lparr>StatusCode = 200, Status = ''200 OK'', RespHeader = [], Body = Inr ''{\"token\":\"abc\"}''\<rparr>"

definition forbidden403 :: response where
  "forbidden403 =
     \<lparr>StatusCode = 403, Status = ''403 Forbidden'', RespHeader = [], Body = Inr []\<rparr>"

definition quota403 :: response where
  "quota403 =
     \<lparr>StatusCode = 403, Status = ''403 quota 100%exceeded'', RespHeader = [], Body = Inr []\<rparr>"

definition locked401 :: response where
  "locked401 =
     \<lparr>StatusCode = 401, Status = ''401 account 50%locked'',
      RespHeader = [(''Www-Authenticate'', ''Basic realm=\"registry\"'')], Body = Inr []\<rparr>"

definition ok200 :: response where
  "ok200 = \<lparr>StatusCode = 200, Status = ''200 OK'', RespHeader = [], Body = Inr []\<rparr>"

definition accepted202 :: response where
  "accepted202 =
     \<lparr>StatusCode = 202, Status = ''202 Accepted'', RespHeader = [], Body = Inr []\<rparr>"

definition notFound404 :: response where
  "notFound404 =
     \<lparr>StatusCode = 404, Status = ''404 Not Found'', RespHeader = [], Body = Inr []\<rparr>"

definition consulImage :: resourceData where
  "consulImage =
     \<lparr>name = ''consul'', sha256_digest = ''sha256:ab'', keep_remote = False, Id = ''consul''\<rparr>"

definition hubCredentials :: "string \<rightharpoonup> AuthConfig" where
  "hubCredentials =
     [''https://registry.hub.docker.com'' \<mapsto> emptyAuthConfig\<lparr>Username := ''u'', Password := ''p''\<rparr>]"

definition keptImage :: resourceData where
  "keptImage =
     \<lparr>name = ''consul'', sha256_digest = ''sha256:ab'', keep_remote = True, Id = ''consul''\<rparr>"

definition consulManifest :: request where
  "consulManifest =
     \<lparr>Method = ''DELETE'',
      URL = ''https://registry.hub.docker.com/v2/library/consul/manifests/sha256:ab'',
      ReqHeader = []\<rparr>"

definition basicUP :: header where
  "basicUP = [(''Authorization'', ''Basic dTpw'')]"

definition consulBearer :: request where
  "consulBearer =
     \<lparr>Method = ''DELETE'',
      URL = ''https://registry.hub.docker.com/v2/library/consul/manifests/sha256:ab'',
      ReqHeader = [(''Authorization'', ''Bearer abc'')]\<rparr>"

definition consulToken :: request where
  "consulToken =
     \<lparr>Method = ''GET'',
      URL = ''https://auth.docker.io/token?scope=repository%3Alibrary%2Fconsul%3Adelete&service=registry.docker.io'',
      ReqHeader = []\<rparr>"

section \<open>Evaluation and the state of a call\<close>

lemmas run_defs =
  removeRegistryImage_def bearerFlow_def Do_def NewRequest_def manifestURL_def withBasicAuth_def
  SetBasicAuth_def Header_Set_def Header_Get_def tokenURL_def lookup_str_def Values_Encode_def
  QueryEscape_def escape_byte_def unreserved_def upperhex_def EncodeToString_def encodeStd_def
  configureTLS_def Errorf0_def ascii_letter_def Let_def

lemmas fixed_defs =
  fixedDeps_def fixedChallenge_def scripted_def start_def bearerChallenge_def hub_def
  challenge401_def basic401_def token200_def forbidden403_def ok200_def accepted202_def
  notFound404_def quota403_def locked401_def consulManifest_def consulToken_def
  consulBearer_def basicUP_def

lemma sprintf0_plain: "CHR ''%'' \<notin> set f \<Longrightarrow> sprintf0 f = Some f"
  by (induction f rule: sprintf0.induct) auto

lemma Errorf0_plain: "CHR ''%'' \<notin> set f \<Longrightarrow> Errorf0 dp f = f"
  by (simp add: Errorf0_def sprintf0_plain)

lemma Do_Client: "Do nt req st = (r, st') \<Longrightarrow> Client st' = Client st"
  by (auto simp: Do_def Let_def split: prod.splits)

lemma Do_Sent: "Do nt req st = (r, st') \<Longrightarrow> Sent st' = Sent st @ [req]"
  by (auto simp: Do_def Let_def split: prod.splits)

lemma bearerFlow_Client:
  "bearerFlow dp nt username password req resp st = (r, st') \<Longrightarrow> Client st' = Client st"
  unfolding bearerFlow_def Let_def
  by (auto split: sum.splits prod.splits if_splits dest!: Do_Client)

lemma removeRegistryImage_Client:
  "removeRegistryImage dp nt env st registry img manifest username password = (r, st') \<Longrightarrow>
     Client st' = configureTLS env (Client st)"
  unfolding removeRegistryImage_def Let_def
  by (auto split: sum.splits prod.splits if_splits dest!: Do_Client bearerFlow_Client)

lemma NewRequest_Inr:
  "NewRequest dp m u = Inr q \<Longrightarrow> q = \<lparr>Method = m, URL = u, ReqHeader = []\<rparr>"
  by (auto simp: NewRequest_def split: option.splits)

lemma withBasicAuth_Header:
  "ReqHeader (withBasicAuth username password \<lparr>Method = m, URL = u, ReqHeader = []\<rparr>) =
     (if username = [] then []
      else [(''Authorization'', ''Basic '' @ EncodeToString encodeStd (username @ '':'' @ password))])"
  by (simp add: withBasicAuth_def SetBasicAuth_def Header_Set_def)

lemma withBasicAuth_Method:
  "Method (withBasicAuth username password q) = Method q"
  by (simp add: withBasicAuth_def SetBasicAuth_def)

text \<open>
  The request of the retry: the first request with its \<open>Authorization\<close> header set to the
  token, whether or not basic auth had been set on it.
\<close>

lemma retried_request:
  assumes "NewRequest dp ''DELETE'' (manifestURL registry img manifest) = Inr req0"
  shows "(withBasicAuth username password req0)
             \<lparr>ReqHeader := Header_Set ''Authorization'' (''Bearer '' @ t)
                 (ReqHeader (withBasicAuth username password req0))\<rparr>
           = \<lparr>Method = ''DELETE'', URL = manifestURL registry img manifest,
              ReqHeader = [(''Authorization'', ''Bearer '' @ t)]\<rparr>"
proof -
  have "req0 = \<lparr>Method = ''DELETE'', URL = manifestURL registry img manifest, ReqHeader = []\<rparr>"
    using assms by (rule NewRequest_Inr)
  then show ?thesis
    by (simp add: withBasicAuth_def SetBasicAuth_def Header_Set_def)
qed

text \<open>
  A first response of 401 with a \<open>Bearer\<close> challenge hands the call over to the bearer
  flow, with one request sent.
\<close>

lemma enter_bearer:
  assumes "NewRequest dp ''DELETE'' (manifestURL registry img manifest) = Inr req0"
    and "nt (World st) (configureTLS env (Client st)) (withBasicAuth username password req0)
           = (Inr resp, w')"
    and "StatusCode resp = 401"
    and "prefix ''Bearer'' (Header_Get (RespHeader resp) ''Www-Authenticate'')"
  shows "removeRegistryImage dp nt env st registry img manifest username password =
           bearerFlow dp nt username password (withBasicAuth username password req0) resp
             (st\<lparr>Client := configureTLS env (Client st), World := w',
                 Sent := Sent st @ [withBasicAuth username password req0]\<rparr>)"
  using assms by (simp add: removeRegistryImage_def Do_def Let_def)

text \<open>
  The outcome of a bearer flow that reaches the retry: success on 200, and the error
  \<open>Got bad response from registry\<close> on every other status of the retried request.
\<close>

lemma retried_status:
  assumes "NewRequest dp ''DELETE'' (manifestURL registry img manifest) = Inr req0"
    and "nt (World st) (configureTLS env (Client st)) (withBasicAuth username password req0)
           = (Inr resp, w1)"
    and "StatusCode resp = 401"
    and "prefix ''Bearer'' (Header_Get (RespHeader resp) ''Www-Authenticate'')"
    and "NewRequest dp ''GET'' (tokenURL dp (Header_Get (RespHeader resp) ''Www-Authenticate''))
           = Inr treq0"
    and "nt w1 (configureTLS env (Client st)) (withBasicAuth username password treq0)
           = (Inr tokenResponse, w2)"
    and "StatusCode tokenResponse = 200"
    and "Body tokenResponse = Inr body"
    and "unmarshal_token dp body = Inr t"
    and "nt w2 (configureTLS env (Client st))
           \<lparr>Method = ''DELETE'', URL = manifestURL registry img manifest,
            ReqHeader = [(''Authorization'', ''Bearer '' @ t)]\<rparr> = (Inr digestResponse, w3)"
  shows "fst (removeRegistryImage dp nt env st registry img manifest username password) =
           (if StatusCode digestResponse = 200 then None
            else Some (Errorf0 dp (''Got bad response from registry: '' @ Status digestResponse)))"
proof -
  note r = retried_request [OF assms(1), where username = username and password = password and t = t]
  have e: "removeRegistryImage dp nt env st registry img manifest username password =
           bearerFlow dp nt username password (withBasicAuth username password req0) resp
             (st\<lparr>Client := configureTLS env (Client st), World := w1,
                 Sent := Sent st @ [withBasicAuth username password req0]\<rparr>)"
    using assms(1-4) by (rule enter_bearer)
  show ?thesis
    unfolding e using assms(5-10) r
    by (auto simp: bearerFlow_def Do_def Let_def split: prod.splits sum.splits)
qed

text \<open>The requests of a bearer flow: at most two, and the first is the token request.\<close>

lemma bearerFlow_Sent:
  assumes "bearerFlow dp nt username password req resp st = (r, st')"
  shows "\<exists>new. Sent st' = Sent st @ new \<and> length new \<le> 2 \<and>
           (\<forall>q \<in> set (take 1 new). Method q = ''GET'' \<and>
              ReqHeader q = (if username = [] then []
                 else [(''Authorization'',
                        ''Basic '' @ EncodeToString encodeStd (username @ '':'' @ password))]))"
proof (cases "NewRequest dp ''GET'' (tokenURL dp (Header_Get (RespHeader resp) ''Www-Authenticate''))")
  case (Inl e)
  with assms show ?thesis by (simp add: bearerFlow_def)
next
  case (Inr t0)
  then have t0: "t0 = \<lparr>Method = ''GET'',
      URL = tokenURL dp (Header_Get (RespHeader resp) ''Www-Authenticate''), ReqHeader = []\<rparr>"
    by (rule NewRequest_Inr)
  obtain r1 st1 where d1: "Do nt (withBasicAuth username password t0) st = (r1, st1)"
    by (cases "Do nt (withBasicAuth username password t0) st")
  have s1: "Sent st1 = Sent st @ [withBasicAuth username password t0]"
    using d1 by (rule Do_Sent)
  have h: "Method (withBasicAuth username password t0) = ''GET''"
    "ReqHeader (withBasicAuth username password t0) = (if username = [] then []
       else [(''Authorization'', ''Basic '' @ EncodeToString encodeStd (username @ '':'' @ password))])"
    unfolding t0 by (simp_all only: withBasicAuth_Header withBasicAuth_Method request.simps)
  have "Sent st' = Sent st1 \<or> (\<exists>q. Sent st' = Sent st1 @ [q])"
    using assms Inr d1
    by (auto simp: bearerFlow_def Let_def split: sum.splits prod.splits if_splits dest: Do_Sent)
  then show ?thesis
  proof
    assume "Sent st' = Sent st1"
    then have "Sent st' = Sent st @ [withBasicAuth username password t0]" using s1 by simp
    then show ?thesis
      using h by (intro exI[of _ "[withBasicAuth username password t0]"]) simp
  next
    assume "\<exists>q. Sent st' = Sent st1 @ [q]"
    then obtain q where "Sent st' = Sent st1 @ [q]" ..
    then have "Sent st' = Sent st @ [withBasicAuth username password t0, q]" using s1 by simp
    then show ?thesis
      using h by (intro exI[of _ "[withBasicAuth username password t0, q]"]) simp
  qed
qed

lemma nth_in_take: "i < n \<Longrightarrow> i < length xs \<Longrightarrow> xs ! i \<in> set (take n xs)"
  by (auto simp: in_set_conv_nth intro!: exI[of _ i])

lemma parse_consul:
  "parseImageOptions_spec ''consul'' = \<lparr>Registry = [], Repository = ''consul'', Tag = []\<rparr>"
  by (simp add: parseImageOptions_spec_def lastSegment_def Let_def)

lemma parse_consul_full:
  "parseImageOptions_spec ''registry.hub.docker.com/library/consul'' =
     \<lparr>Registry = ''registry.hub.docker.com'',
      Repository = ''registry.hub.docker.com/library/consul'', Tag = []\<rparr>"
  by (simp add: parseImageOptions_spec_def lastSegment_def Let_def)

section \<open>The claims\<close>

text \<open>
  C1, as amended. For every delete call whose first DELETE gets 401 with a Bearer
  challenge, whose token request gets 200 with a body that holds a token, and whose
  retried DELETE gets status 200, \<open>removeRegistryImage\<close> returns success (no error),
  having sent the three requests.
\<close>

theorem bearer_retry_200_is_success:
  assumes "NewRequest dp ''DELETE'' (manifestURL registry img manifest) = Inr req0"
    and "nt (World st) (configureTLS env (Client st)) (withBasicAuth username password req0)
           = (Inr resp, w1)"
    and "StatusCode resp = 401"
    and "prefix ''Bearer'' (Header_Get (RespHeader resp) ''Www-Authenticate'')"
    and "NewRequest dp ''GET'' (tokenURL dp (Header_Get (RespHeader resp) ''Www-Authenticate''))
           = Inr treq0"
    and "nt w1 (configureTLS env (Client st)) (withBasicAuth username password treq0)
           = (Inr tokenResponse, w2)"
    and "StatusCode tokenResponse = 200"
    and "Body tokenResponse = Inr body"
    and "unmarshal_token dp body = Inr t"
    and "nt w2 (configureTLS env (Client st))
           \<lparr>Method = ''DELETE'', URL = manifestURL registry img manifest,
            ReqHeader = [(''Authorization'', ''Bearer '' @ t)]\<rparr> = (Inr digestResponse, w3)"
    and "StatusCode digestResponse = 200"
  shows "removeRegistryImage dp nt env st registry img manifest username password =
           (None,
            st\<lparr>Client := configureTLS env (Client st), World := w3,
               Sent := Sent st @ [withBasicAuth username password req0,
                                  withBasicAuth username password treq0,
                                  \<lparr>Method = ''DELETE'', URL = manifestURL registry img manifest,
                                   ReqHeader = [(''Authorization'', ''Bearer '' @ t)]\<rparr>]\<rparr>)"
proof -
  note r = retried_request [OF assms(1), where username = username and password = password
      and t = t]
  have e: "removeRegistryImage dp nt env st registry img manifest username password =
           bearerFlow dp nt username password (withBasicAuth username password req0) resp
             (st\<lparr>Client := configureTLS env (Client st), World := w1,
                 Sent := Sent st @ [withBasicAuth username password req0]\<rparr>)"
    using assms(1-4) by (rule enter_bearer)
  show ?thesis
    unfolding e using assms(5-11) r
    by (auto simp: bearerFlow_def Do_def Let_def split: prod.splits sum.splits)
qed

theorem bearer_retry_200_is_success_witness:
  "removeRegistryImage fixedDeps (scripted [Inr challenge401, Inr token200, Inr ok200])
      Map.empty start hub ''library/consul'' ''sha256:ab'' ''u'' ''p''
   = (None,
      start\<lparr>World := 3,
         Sent := [consulManifest\<lparr>ReqHeader := basicUP\<rparr>, consulToken\<lparr>ReqHeader := basicUP\<rparr>,
                  consulBearer]\<rparr>)"
  using bearer_retry_200_is_success [where dp = fixedDeps
      and nt = "scripted [Inr challenge401, Inr token200, Inr ok200]"
      and env = Map.empty and st = start and registry = hub and img = "''library/consul''"
      and manifest = "''sha256:ab''" and username = "''u''" and password = "''p''"
      and ?req0.0 = consulManifest and resp = challenge401 and ?w1.0 = 1
      and ?treq0.0 = consulToken and tokenResponse = token200 and ?w2.0 = 2
      and body = "''{\"token\":\"abc\"}''" and t = "''abc''"
      and digestResponse = ok200 and ?w3.0 = 3]
  by (simp add: run_defs fixed_defs)

text \<open>
  C1, as stated, also takes 202 on the retried DELETE for a success. The retry accepts
  200 only (line 201); 202 is accepted on the first exchange alone (line 149). On the
  exchange below, which ends with \<open>202 Accepted\<close>, the call returns the error
  \<open>Got bad response from registry\<close>.
\<close>

theorem retried_delete_202_rejected:
  "fst (removeRegistryImage fixedDeps
          (scripted [Inr challenge401, Inr token200, Inr accepted202])
          Map.empty start hub ''library/consul'' ''sha256:ab'' ''u'' ''p'')
     = Some ''Got bad response from registry: 202 Accepted''"
  by (simp add: run_defs fixed_defs)

text \<open>
  C2. When the first DELETE of a delete call gets 404, \<open>removeRegistryImage\<close> returns
  success (no error) and sends no further request: the requests sent by the call are
  the first DELETE alone.
\<close>

theorem delete_404_is_success:
  assumes "NewRequest dp ''DELETE'' (manifestURL registry img manifest) = Inr req0"
    and "nt (World st) (configureTLS env (Client st)) (withBasicAuth username password req0)
           = (Inr resp, w')"
    and "StatusCode resp = 404"
  shows "removeRegistryImage dp nt env st registry img manifest username password =
           (None, st\<lparr>Client := configureTLS env (Client st), World := w',
                      Sent := Sent st @ [withBasicAuth username password req0]\<rparr>)"
  using assms by (simp add: removeRegistryImage_def Do_def)

theorem delete_404_is_success_witness:
  "removeRegistryImage fixedDeps (scripted [Inr notFound404])
      Map.empty start hub ''library/consul'' ''sha256:ab'' [] []
   = (None, start\<lparr>World := 1, Sent := [consulManifest]\<rparr>)"
  using delete_404_is_success [where dp = fixedDeps and nt = "scripted [Inr notFound404]"
      and env = Map.empty and st = start and registry = hub and img = "''library/consul''"
      and manifest = "''sha256:ab''" and username = "[]" and password = "[]"
      and ?req0.0 = consulManifest and resp = notFound404 and w' = 1]
  by (simp add: NewRequest_def manifestURL_def withBasicAuth_def configureTLS_def fixed_defs)

text \<open>
  The token request answered with a status other than 200: the call ends with the error
  that \<open>fmt.Errorf\<close> makes of \<open>Got bad response from registry\<close> and the status line, and
  the retried DELETE is not sent: the requests sent by the call are the first DELETE and
  the token request.
\<close>

lemma token_fetch_failed:
  assumes "NewRequest dp ''DELETE'' (manifestURL registry img manifest) = Inr req0"
    and "nt (World st) (configureTLS env (Client st)) (withBasicAuth username password req0)
           = (Inr resp, w1)"
    and "StatusCode resp = 401"
    and "prefix ''Bearer'' (Header_Get (RespHeader resp) ''Www-Authenticate'')"
    and "NewRequest dp ''GET'' (tokenURL dp (Header_Get (RespHeader resp) ''Www-Authenticate''))
           = Inr treq0"
    and "nt w1 (configureTLS env (Client st)) (withBasicAuth username password treq0)
           = (Inr tokenResponse, w2)"
    and "StatusCode tokenResponse \<noteq> 200"
  shows "removeRegistryImage dp nt env st registry img manifest username password =
           (Some (Errorf0 dp (''Got bad response from registry: '' @ Status tokenResponse)),
            st\<lparr>Client := configureTLS env (Client st), World := w2,
               Sent := Sent st @ [withBasicAuth username password req0,
                                  withBasicAuth username password treq0]\<rparr>)"
proof -
  have e: "removeRegistryImage dp nt env st registry img manifest username password =
           bearerFlow dp nt username password (withBasicAuth username password req0) resp
             (st\<lparr>Client := configureTLS env (Client st), World := w1,
                 Sent := Sent st @ [withBasicAuth username password req0]\<rparr>)"
    using assms(1-4) by (rule enter_bearer)
  show ?thesis
    unfolding e using assms(5-7) by (simp add: bearerFlow_def Do_def Let_def)
qed

lemma token_fetch_failed_forbidden:
  "removeRegistryImage fixedDeps (scripted [Inr challenge401, Inr forbidden403])
      Map.empty start hub ''library/consul'' ''sha256:ab'' ''u'' ''p''
   = (Some ''Got bad response from registry: 403 Forbidden'',
      start\<lparr>World := 2,
         Sent := [consulManifest\<lparr>ReqHeader := basicUP\<rparr>, consulToken\<lparr>ReqHeader := basicUP\<rparr>]\<rparr>)"
  using token_fetch_failed [where dp = fixedDeps
      and nt = "scripted [Inr challenge401, Inr forbidden403]"
      and env = Map.empty and st = start and registry = hub and img = "''library/consul''"
      and manifest = "''sha256:ab''" and username = "''u''" and password = "''p''"
      and ?req0.0 = consulManifest and resp = challenge401 and ?w1.0 = 1
      and ?treq0.0 = consulToken and tokenResponse = forbidden403 and ?w2.0 = 2]
  by (simp add: run_defs fixed_defs)

text \<open>
  C3. In the bearer flow, a token response with a status other than 200 is claimed to
  give the error that carries the status of that response, with no retried DELETE. No
  retried DELETE is sent (lemma \<open>token_fetch_failed\<close>), and a status line without a
  percent sign is carried as it is (lemma \<open>Errorf0_plain\<close>). But line 180 passes the
  text and the status line to \<open>fmt.Errorf\<close> as the format string, where the other errors
  of the function pass their operand to a \<open>%s\<close>. On the exchange below the token
  response has the status line \<open>403 quota 100%exceeded\<close>, and the error does not carry
  it: \<open>%e\<close> is read as a verb without operand.
\<close>

theorem token_fetch_status_mangled:
  "removeRegistryImage fixedDeps (scripted [Inr challenge401, Inr quota403])
      Map.empty start hub ''library/consul'' ''sha256:ab'' ''u'' ''p''
   = (Some ''Got bad response from registry: 403 quota 100%!e(MISSING)xceeded'',
      start\<lparr>World := 2,
         Sent := [consulManifest\<lparr>ReqHeader := basicUP\<rparr>, consulToken\<lparr>ReqHeader := basicUP\<rparr>]\<rparr>)"
  by (simp add: run_defs fixed_defs)

text \<open>
  C4. In the bearer flow with token \<open>t\<close>, the retried DELETE is the first request with
  its \<open>Authorization\<close> header equal to \<open>Bearer\<close>, a space and \<open>t\<close>; the basic-auth
  header of the first request, if there was one, is replaced by it. The requests sent by
  the call are the first DELETE, the token request and this one.
\<close>

theorem retried_authorization:
  assumes "NewRequest dp ''DELETE'' (manifestURL registry img manifest) = Inr req0"
    and "nt (World st) (configureTLS env (Client st)) (withBasicAuth username password req0)
           = (Inr resp, w1)"
    and "StatusCode resp = 401"
    and "prefix ''Bearer'' (Header_Get (RespHeader resp) ''Www-Authenticate'')"
    and "NewRequest dp ''GET'' (tokenURL dp (Header_Get (RespHeader resp) ''Www-Authenticate''))
           = Inr treq0"
    and "nt w1 (configureTLS env (Client st)) (withBasicAuth username password treq0)
           = (Inr tokenResponse, w2)"
    and "StatusCode tokenResponse = 200"
    and "Body tokenResponse = Inr body"
    and "unmarshal_token dp body = Inr t"
  shows "Sent (snd (removeRegistryImage dp nt env st registry img manifest username password)) =
           Sent st @ [withBasicAuth username password req0,
                      withBasicAuth username password treq0,
                      \<lparr>Method = ''DELETE'', URL = manifestURL registry img manifest,
                       ReqHeader = [(''Authorization'', ''Bearer '' @ t)]\<rparr>]"
proof -
  note r = retried_request [OF assms(1), where username = username and password = password
      and t = t]
  have e: "removeRegistryImage dp nt env st registry img manifest username password =
           bearerFlow dp nt username password (withBasicAuth username password req0) resp
             (st\<lparr>Client := configureTLS env (Client st), World := w1,
                 Sent := Sent st @ [withBasicAuth username password req0]\<rparr>)"
    using assms(1-4) by (rule enter_bearer)
  show ?thesis
    unfolding e using assms(5-9) r
    by (auto simp: bearerFlow_def Do_def Let_def split: prod.splits sum.splits)
qed

theorem retried_authorization_witness:
  "Sent (snd (removeRegistryImage fixedDeps (scripted [Inr challenge401, Inr token200, Inr ok200])
      Map.empty start hub ''library/consul'' ''sha256:ab'' ''u'' ''p''))
   = [consulManifest\<lparr>ReqHeader := basicUP\<rparr>, consulToken\<lparr>ReqHeader := basicUP\<rparr>, consulBearer]"
  using retried_authorization [where dp = fixedDeps
      and nt = "scripted [Inr challenge401, Inr token200, Inr ok200]"
      and env = Map.empty and st = start and registry = hub and img = "''library/consul''"
      and manifest = "''sha256:ab''" and username = "''u''" and password = "''p''"
      and ?req0.0 = consulManifest and resp = challenge401 and ?w1.0 = 1
      and ?treq0.0 = consulToken and tokenResponse = token200 and ?w2.0 = 2
      and body = "''{\"token\":\"abc\"}''" and t = "''abc''"]
  by (simp add: run_defs fixed_defs)

text \<open>
  The first DELETE answered 401 with a \<open>WWW-Authenticate\<close> header that does not begin with
  \<open>Bearer\<close> (an absent header reads as the empty string): the call ends with the error
  that \<open>fmt.Errorf\<close> makes of \<open>Bad credentials\<close> and the status line, and sends no
  further request.
\<close>

lemma bad_credentials:
  assumes "NewRequest dp ''DELETE'' (manifestURL registry img manifest) = Inr req0"
    and "nt (World st) (configureTLS env (Client st)) (withBasicAuth username password req0)
           = (Inr resp, w')"
    and "StatusCode resp = 401"
    and "\<not> prefix ''Bearer'' (Header_Get (RespHeader resp) ''Www-Authenticate'')"
  shows "removeRegistryImage dp nt env st registry img manifest username password =
           (Some (Errorf0 dp (''Bad credentials: '' @ Status resp)),
            st\<lparr>Client := configureTLS env (Client st), World := w',
               Sent := Sent st @ [withBasicAuth username password req0]\<rparr>)"
  using assms by (simp add: removeRegistryImage_def Do_def)

lemma bad_credentials_basic:
  "removeRegistryImage fixedDeps (scripted [Inr basic401])
      Map.empty start hub ''library/consul'' ''sha256:ab'' ''u'' ''p''
   = (Some ''Bad credentials: 401 Unauthorized'',
      start\<lparr>World := 1, Sent := [consulManifest\<lparr>ReqHeader := basicUP\<rparr>]\<rparr>)"
  using bad_credentials [where dp = fixedDeps and nt = "scripted [Inr basic401]"
      and env = Map.empty and st = start and registry = hub and img = "''library/consul''"
      and manifest = "''sha256:ab''" and username = "''u''" and password = "''p''"
      and ?req0.0 = consulManifest and resp = basic401 and w' = 1]
  by (simp add: run_defs fixed_defs)

text \<open>
  C5. A first DELETE answered 401 without a Bearer challenge is claimed to give the
  error \<open>Bad credentials\<close> that carries the status line, with no further request. No
  further request is sent (lemma \<open>bad_credentials\<close>), and a status line without a
  percent sign is carried as it is (lemma \<open>Errorf0_plain\<close>). But line 208 passes the
  text and the status line to \<open>fmt.Errorf\<close> as the format string. On the exchange below
  the response has the status line \<open>401 account 50%locked\<close>, and the error does not
  carry it: \<open>%l\<close> is read as a verb without operand.
\<close>

theorem bad_credentials_status_mangled:
  "removeRegistryImage fixedDeps (scripted [Inr locked401])
      Map.empty start hub ''library/consul'' ''sha256:ab'' ''u'' ''p''
   = (Some ''Bad credentials: 401 account 50%!l(MISSING)ocked'',
      start\<lparr>World := 1, Sent := [consulManifest\<lparr>ReqHeader := basicUP\<rparr>]\<rparr>)"
  by (simp add: run_defs fixed_defs)

text \<open>
  C6. Of the requests a delete call sends, the first is the DELETE and the second, if
  there is one, the token GET; both have no header at all when the user name is empty,
  and both have the basic-auth header of the user name and password, and nothing else,
  when it is not. A call sends at most three requests.
\<close>

theorem basic_auth_on_both_requests:
  assumes "removeRegistryImage dp nt env st registry img manifest username password = (r, st')"
  shows "\<exists>new. Sent st' = Sent st @ new \<and> length new \<le> 3 \<and>
           prefix (map Method (take 2 new)) [''DELETE'', ''GET''] \<and>
           (\<forall>q \<in> set (take 2 new).
              ReqHeader q = (if username = [] then []
                 else [(''Authorization'',
                        ''Basic '' @ EncodeToString encodeStd (username @ '':'' @ password))]))"
proof (cases "NewRequest dp ''DELETE'' (manifestURL registry img manifest)")
  case (Inl e)
  with assms have "Sent st' = Sent st" by (auto simp: removeRegistryImage_def)
  then show ?thesis by (intro exI[of _ "[]"]) simp
next
  case (Inr q0)
  then have q0: "q0 = \<lparr>Method = ''DELETE'', URL = manifestURL registry img manifest, ReqHeader = []\<rparr>"
    by (rule NewRequest_Inr)
  let ?H = "if username = [] then []
            else [(''Authorization'', ''Basic '' @ EncodeToString encodeStd (username @ '':'' @ password))]"
  let ?q = "withBasicAuth username password q0"
  let ?s = "st\<lparr>Client := configureTLS env (Client st)\<rparr>"
  have h: "Method ?q = ''DELETE''" "ReqHeader ?q = ?H"
    unfolding q0 by (simp_all only: withBasicAuth_Header withBasicAuth_Method request.simps)
  obtain r1 st1 where d1: "Do nt ?q ?s = (r1, st1)"
    by (cases "Do nt ?q ?s")
  have s1: "Sent st1 = Sent st @ [?q]"
    using Do_Sent [OF d1] by simp
  have "Sent st' = Sent st1 \<or> (\<exists>resp. bearerFlow dp nt username password ?q resp st1 = (r, st'))"
    using assms Inr d1
    by (auto simp: removeRegistryImage_def Let_def split: sum.splits if_splits)
  then show ?thesis
  proof
    assume "Sent st' = Sent st1"
    then have "Sent st' = Sent st @ [?q]" using s1 by simp
    then show ?thesis using h by (intro exI[of _ "[?q]"]) simp
  next
    assume "\<exists>resp. bearerFlow dp nt username password ?q resp st1 = (r, st')"
    then obtain resp where "bearerFlow dp nt username password ?q resp st1 = (r, st')" ..
    from bearerFlow_Sent [OF this] obtain new where
      n: "Sent st' = Sent st1 @ new" "length new \<le> 2"
         "\<forall>q \<in> set (take 1 new). Method q = ''GET'' \<and> ReqHeader q = ?H"
      by blast
    have "Sent st' = Sent st @ (?q # new)" using n(1) s1 by simp
    moreover have "length (?q # new) \<le> 3" using n(2) by simp
    moreover have "prefix (map Method (take 2 (?q # new))) [''DELETE'', ''GET'']"
      using n(3) h(1) by (cases new) (simp_all add: take_Suc_Cons numeral_2_eq_2)
    moreover have "\<forall>q \<in> set (take 2 (?q # new)). ReqHeader q = ?H"
      using n(3) h(2) by (cases new) (simp_all add: numeral_2_eq_2)
    ultimately show ?thesis by blast
  qed
qed

theorem basic_auth_on_both_requests_witness:
  "(let st' = snd (removeRegistryImage fixedDeps
                (scripted [Inr challenge401, Inr token200, Inr ok200])
                Map.empty start hub ''library/consul'' ''sha256:ab'' ''u'' ''p'')
    in length (Sent st') = 3
       \<and> ReqHeader (Sent st' ! 0) = [(''Authorization'', ''Basic dTpw'')]
       \<and> ReqHeader (Sent st' ! 1) = [(''Authorization'', ''Basic dTpw'')])
   \<and> (let st' = snd (removeRegistryImage fixedDeps
                (scripted [Inr challenge401, Inr token200, Inr ok200])
                Map.empty start hub ''library/consul'' ''sha256:ab'' [] [])
      in length (Sent st') = 3
         \<and> ReqHeader (Sent st' ! 0) = [] \<and> ReqHeader (Sent st' ! 1) = [])"
proof -
  let ?nt = "scripted [Inr challenge401, Inr token200, Inr ok200]"
  let ?a = "removeRegistryImage fixedDeps ?nt Map.empty start hub ''library/consul''
              ''sha256:ab'' ''u'' ''p''"
  let ?b = "removeRegistryImage fixedDeps ?nt Map.empty start hub ''library/consul''
              ''sha256:ab'' [] []"
  have la: "length (Sent (snd ?a)) = 3" and lb: "length (Sent (snd ?b)) = 3"
    by (simp_all add: run_defs fixed_defs)
  have "?a = (fst ?a, snd ?a)" by simp
  from basic_auth_on_both_requests [OF this] obtain new where
    a: "Sent (snd ?a) = Sent start @ new"
       "\<forall>q \<in> set (take 2 new). ReqHeader q =
          [(''Authorization'', ''Basic '' @ EncodeToString encodeStd (''u'' @ '':'' @ ''p''))]"
    by auto
  have "?b = (fst ?b, snd ?b)" by simp
  from basic_auth_on_both_requests [OF this] obtain new' where
    b: "Sent (snd ?b) = Sent start @ new'" "\<forall>q \<in> set (take 2 new'). ReqHeader q = []"
    by auto
  have na: "new = Sent (snd ?a)" using a(1) by (simp add: start_def)
  have nb: "new' = Sent (snd ?b)" using b(1) by (simp add: start_def)
  have e: "EncodeToString encodeStd (''u'' @ '':'' @ ''p'') = ''dTpw''"
    by (simp add: EncodeToString_def encodeStd_def)
  have a2: "\<forall>q \<in> set (take 2 (Sent (snd ?a))). ReqHeader q = [(''Authorization'', ''Basic dTpw'')]"
    using a(2) unfolding na e by simp
  have b2: "\<forall>q \<in> set (take 2 (Sent (snd ?b))). ReqHeader q = []"
    using b(2) unfolding nb by simp
  have ia: "Sent (snd ?a) ! i \<in> set (take 2 (Sent (snd ?a)))" if "i < 2" for i
    using that la by (intro nth_in_take) simp_all
  have ib: "Sent (snd ?b) ! i \<in> set (take 2 (Sent (snd ?b)))" if "i < 2" for i
    using that lb by (intro nth_in_take) simp_all
  have "ReqHeader (Sent (snd ?a) ! 0) = [(''Authorization'', ''Basic dTpw'')]"
       "ReqHeader (Sent (snd ?a) ! 1) = [(''Authorization'', ''Basic dTpw'')]"
    using a2 ia [of 0] ia [of 1] by simp_all
  moreover have "ReqHeader (Sent (snd ?b) ! 0) = []" "ReqHeader (Sent (snd ?b) ! 1) = []"
    using b2 ib [of 0] ib [of 1] by simp_all
  ultimately show ?thesis
    using la lb by (simp add: Let_def)
qed

text \<open>
  C7. When the parsed reference of a delete has no registry, the registry passed on is
  \<open>registry.hub.docker.com\<close>, a repository without a slash is prefixed with \<open>library/\<close>,
  and the credentials are those the table holds under the normalised form of that
  registry. With the reference parser and the normalisation of the spec, the names
  \<open>consul\<close> and \<open>registry.hub.docker.com/library/consul\<close> pass the same registry,
  repository and credentials on, and the key is \<open>https://registry.hub.docker.com\<close>.
\<close>

theorem default_registry_normalization:
  "(Registry (parseImageOptions dp (name d)) = [] \<longrightarrow>
      deleteArguments dp configs d =
        (hub,
         (if strings_Contains (Repository (parseImageOptions dp (name d))) ''/''
          then Repository (parseImageOptions dp (name d))
          else ''library/'' @ Repository (parseImageOptions dp (name d))),
         sha256_digest d,
         (case configs (normalizeRegistryAddress dp hub) of Some a \<Rightarrow> Username a | None \<Rightarrow> []),
         (case configs (normalizeRegistryAddress dp hub) of Some a \<Rightarrow> Password a | None \<Rightarrow> [])))
   \<and> deleteArguments (dp\<lparr>parseImageOptions := parseImageOptions_spec\<rparr>) configs
         (d\<lparr>name := ''consul''\<rparr>)
       = (hub, ''library/consul'', sha256_digest d,
          (case configs (normalizeRegistryAddress dp hub) of Some a \<Rightarrow> Username a | None \<Rightarrow> []),
          (case configs (normalizeRegistryAddress dp hub) of Some a \<Rightarrow> Password a | None \<Rightarrow> []))
   \<and> deleteArguments (dp\<lparr>parseImageOptions := parseImageOptions_spec\<rparr>) configs
         (d\<lparr>name := ''registry.hub.docker.com/library/consul''\<rparr>)
       = deleteArguments (dp\<lparr>parseImageOptions := parseImageOptions_spec\<rparr>) configs
           (d\<lparr>name := ''consul''\<rparr>)
   \<and> normalizeRegistryAddress_spec hub = ''https://registry.hub.docker.com''"
proof (intro conjI impI)
  assume "Registry (parseImageOptions dp (name d)) = []"
  then show "deleteArguments dp configs d =
        (hub,
         (if strings_Contains (Repository (parseImageOptions dp (name d))) ''/''
          then Repository (parseImageOptions dp (name d))
          else ''library/'' @ Repository (parseImageOptions dp (name d))),
         sha256_digest d,
         (case configs (normalizeRegistryAddress dp hub) of Some a \<Rightarrow> Username a | None \<Rightarrow> []),
         (case configs (normalizeRegistryAddress dp hub) of Some a \<Rightarrow> Password a | None \<Rightarrow> []))"
    by (simp add: deleteArguments_def Let_def split: option.splits)
next
  show c: "deleteArguments (dp\<lparr>parseImageOptions := parseImageOptions_spec\<rparr>) configs
         (d\<lparr>name := ''consul''\<rparr>)
       = (hub, ''library/consul'', sha256_digest d,
          (case configs (normalizeRegistryAddress dp hub) of Some a \<Rightarrow> Username a | None \<Rightarrow> []),
          (case configs (normalizeRegistryAddress dp hub) of Some a \<Rightarrow> Password a | None \<Rightarrow> []))"
    by (simp add: deleteArguments_def Let_def parse_consul split: option.splits)
  have "deleteArguments (dp\<lparr>parseImageOptions := parseImageOptions_spec\<rparr>) configs
         (d\<lparr>name := ''registry.hub.docker.com/library/consul''\<rparr>)
       = (hub, ''library/consul'', sha256_digest d,
          (case configs (normalizeRegistryAddress dp hub) of Some a \<Rightarrow> Username a | None \<Rightarrow> []),
          (case configs (normalizeRegistryAddress dp hub) of Some a \<Rightarrow> Password a | None \<Rightarrow> []))"
    by (simp add: deleteArguments_def Let_def parse_consul_full hub_def split: option.splits)
  with c show "deleteArguments (dp\<lparr>parseImageOptions := parseImageOptions_spec\<rparr>) configs
         (d\<lparr>name := ''registry.hub.docker.com/library/consul''\<rparr>)
       = deleteArguments (dp\<lparr>parseImageOptions := parseImageOptions_spec\<rparr>) configs
           (d\<lparr>name := ''consul''\<rparr>)"
    by simp
next
  show "normalizeRegistryAddress_spec hub = ''https://registry.hub.docker.com''"
    by (simp add: normalizeRegistryAddress_spec_def hub_def)
qed

theorem default_registry_normalization_witness:
  "Registry (parseImageOptions fixedDeps (name consulImage)) = []
   \<and> deleteArguments fixedDeps hubCredentials consulImage
       = (''registry.hub.docker.com'', ''library/consul'', ''sha256:ab'', ''u'', ''p'')"
proof -
  have r: "Registry (parseImageOptions fixedDeps (name consulImage)) = []"
    by (simp add: fixedDeps_def consulImage_def parse_consul)
  have "deleteArguments fixedDeps hubCredentials consulImage =
        (hub,
         (if strings_Contains (Repository (parseImageOptions fixedDeps (name consulImage))) ''/''
          then Repository (parseImageOptions fixedDeps (name consulImage))
          else ''library/'' @ Repository (parseImageOptions fixedDeps (name consulImage))),
         sha256_digest consulImage,
         (case hubCredentials (normalizeRegistryAddress fixedDeps hub) of
            Some a \<Rightarrow> Username a | None \<Rightarrow> []),
         (case hubCredentials (normalizeRegistryAddress fixedDeps hub) of
            Some a \<Rightarrow> Password a | None \<Rightarrow> []))"
    using default_registry_normalization [of fixedDeps consulImage hubCredentials] r by blast
  then show ?thesis
    using r
    by (simp add: fixedDeps_def consulImage_def parse_consul hubCredentials_def hub_def
          normalizeRegistryAddress_spec_def emptyAuthConfig_def)
qed

text \<open>
  C8. With an empty credential table, \<open>pushImage\<close> of any reference calls \<open>ImagePush\<close>
  once, with a \<open>RegistryAuth\<close> that is the URL-safe base64 encoding of the empty JSON
  object, the string \<open>e30=\<close>; the header is neither left out nor does the push fail
  before the call.
\<close>

theorem anonymous_push_header:
  "snd (pushImage dp push Map.empty img) = [(img, EncodeToString encodeURL ''{}'')]
   \<and> EncodeToString encodeURL ''{}'' = ''e30=''"
  by (simp add: pushImage_def Let_def json_Marshal_def emptyAuthConfig_def EncodeToString_def
        encodeURL_def split: sum.splits)

text \<open>
  C9. When \<open>keep_remote\<close> is true, \<open>resourceDockerRegistryImageDelete\<close> returns success
  and leaves everything as it was: no request is sent, the registry's side and the
  client are unchanged, and so is the resource data.
\<close>

theorem keep_remote_sends_nothing:
  "keep_remote d \<Longrightarrow>
     resourceDockerRegistryImageDelete dp nt env configs d st = (None, d, st)"
  by (simp add: resourceDockerRegistryImageDelete_def)

theorem keep_remote_sends_nothing_witness:
  "keep_remote keptImage
   \<and> resourceDockerRegistryImageDelete fixedDeps (scripted [Inr accepted202]) Map.empty
        hubCredentials keptImage start = (None, keptImage, start)"
proof -
  have k: "keep_remote keptImage" by (simp add: keptImage_def)
  from keep_remote_sends_nothing [OF k] k show ?thesis by simp
qed

text \<open>
  C10. After a call of \<open>removeRegistryImage\<close>, whatever its outcome, the client has the
  transport that skips certificate verification if \<open>TF_ACC\<close> is set and \<open>strconv.Atoi\<close>
  reads it as an integer that is at least 1; otherwise the client is as it was before
  the call, so a client that verified certificates still does.
\<close>

theorem tls_mode:
  "Client (snd (removeRegistryImage dp nt env st registry img manifest username password)) =
     (if \<exists>v i. env ''TF_ACC'' = Some v \<and> Atoi v = Some i \<and> 1 \<le> i
      then (Client st)\<lparr>Transport := InsecureSkipVerify\<rparr> else Client st)"
proof -
  have "Client (snd (removeRegistryImage dp nt env st registry img manifest username password))
          = configureTLS env (Client st)"
    by (cases "removeRegistryImage dp nt env st registry img manifest username password")
       (simp add: removeRegistryImage_Client)
  also have "\<dots> = (if \<exists>v i. env ''TF_ACC'' = Some v \<and> Atoi v = Some i \<and> 1 \<le> i
      then (Client st)\<lparr>Transport := InsecureSkipVerify\<rparr> else Client st)"
    by (auto simp: configureTLS_def split: option.splits)
  finally show ?thesis .
qed

theorem tls_mode_witness:
  "Transport (Client (snd (removeRegistryImage fixedDeps (scripted [Inr accepted202])
      [''TF_ACC'' \<mapsto> ''1''] start hub ''library/consul'' ''sha256:ab'' [] []))) = InsecureSkipVerify
   \<and> Transport (Client (snd (removeRegistryImage fixedDeps (scripted [Inr accepted202])
      [''TF_ACC'' \<mapsto> ''0''] start hub ''library/consul'' ''sha256:ab'' [] []))) = DefaultTransport
   \<and> Transport (Client (snd (removeRegistryImage fixedDeps (scripted [Inr accepted202])
      [''TF_ACC'' \<mapsto> ''true''] start hub ''library/consul'' ''sha256:ab'' [] []))) = DefaultTransport
   \<and> Transport (Client (snd (removeRegistryImage fixedDeps (scripted [Inr accepted202])
      Map.empty start hub ''library/consul'' ''sha256:ab'' [] []))) = DefaultTransport"
proof -
  have a: "Atoi ''1'' = Some 1" "Atoi ''0'' = Some 0" "Atoi ''true'' = None"
    by (simp_all add: Atoi_def digit_value_def)
  show ?thesis
    unfolding tls_mode by (simp add: a start_def)
qed

end
